theory Spec2Isabelle
  imports Complex_Main
begin

section \<open>Tensors, failures and broadcasting\<close>

text \<open>
  The optical model of \<^verbatim>\<open>dprox/contrib/optic/doe_model.py\<close> computes on torch
  tensors. The embedding reads every float as an exact real number (rounding is not
  modelled, so "within tolerance" is read as equality of reals) and every tensor as
  nested lists: a 1-D tensor is a list, a tensor of shape \<open>(H, W)\<close> or
  \<open>(1, 1, H, W)\<close> is a list of \<open>H\<close> rows, and a tensor of shape \<open>(C, H, W)\<close> or
  \<open>(1, C, H, W)\<close> is a list of \<open>C\<close> such planes.

  The failures of the source are values. \<open>IndexError\<close>, \<open>AttributeError\<close>,
  \<open>UnboundLocalError\<close> and \<open>RuntimeError\<close> (torch's shape errors) are the Python
  exceptions of those names. \<open>NonFinite\<close> is no exception: where a float computation
  divides by zero or takes the root of a negative number, torch raises nothing, and the
  tensor it computes holds \<open>inf\<close> or \<open>nan\<close>. A real number cannot stand for such an
  entry, so a function whose result is such a tensor returns \<open>Inl NonFinite\<close>.
\<close>

datatype error = IndexError | AttributeError | UnboundLocalError | RuntimeError | NonFinite

text \<open>
  Where the source goes on with a tensor that may hold \<open>inf\<close> or \<open>nan\<close> (the constructor
  stores it as its parameter, \<^verbatim>\<open>build_baseline_profile\<close> hands it to a callee), the
  tensor is a value of its own: \<open>Finite t\<close> has the real entries \<open>t\<close>, \<open>NotFinite\<close> holds
  an entry that is \<open>inf\<close> or \<open>nan\<close>. \<open>carry_on\<close> turns the result of a function into
  the tensor that the source goes on with; the exceptions stay exceptions.
\<close>

datatype tensor = Finite "real list list" | NotFinite

definition carry_on :: "error + real list list \<Rightarrow> error + tensor" where
  "carry_on r =
     (case r of
        Inl e \<Rightarrow> (if e = NonFinite then Inr NotFinite else Inl e)
      | Inr t \<Rightarrow> Inr (Finite t))"

fun collect :: "(error + 'a) list \<Rightarrow> error + 'a list" where
  "collect [] = Inr []"
| "collect (r # rs) =
     (case r of
        Inl e \<Rightarrow> Inl e
      | Inr x \<Rightarrow> (case collect rs of Inl e \<Rightarrow> Inl e | Inr xs \<Rightarrow> Inr (x # xs)))"

text \<open>
  One dimension of torch's broadcasting of a binary operation: sizes that agree are
  paired, a size of one is repeated along the other operand, anything else is a
  \<open>RuntimeError\<close>.
\<close>

definition broadcast :: "('a \<Rightarrow> 'b \<Rightarrow> error + 'c) \<Rightarrow> 'a list \<Rightarrow> 'b list \<Rightarrow> error + 'c list" where
  "broadcast f xs ys =
     (if length xs = length ys then collect (map2 f xs ys)
      else if length xs = 1 then collect (map (f (hd xs)) ys)
      else if length ys = 1 then collect (map (\<lambda>x. f x (hd ys)) xs)
      else Inl RuntimeError)"

definition broadcast2 :: "('a \<Rightarrow> 'b \<Rightarrow> 'c) \<Rightarrow> 'a list list \<Rightarrow> 'b list list \<Rightarrow> error + 'c list list" where
  "broadcast2 g = broadcast (broadcast (\<lambda>x y. Inr (g x y)))"

definition broadcast3 :: "('a \<Rightarrow> 'b \<Rightarrow> 'c) \<Rightarrow> 'a list list list \<Rightarrow> 'b list list list \<Rightarrow> error + 'c list list list" where
  "broadcast3 g = broadcast (broadcast (broadcast (\<lambda>x y. Inr (g x y))))"

text \<open>
  The operator \<^verbatim>\<open>%\<close> on float tensors is \<^verbatim>\<open>torch.remainder\<close>: the result has the sign
  of the divisor. The source only ever divides by \<open>2\<pi>\<close>.
\<close>

definition remainder :: "real \<Rightarrow> real \<Rightarrow> real" where
  "remainder a b = a - b * of_int \<lfloor>a / b\<rfloor>"

text \<open>
  \<^verbatim>\<open>t ** 0.5\<close>: the root of a negative entry is \<open>nan\<close>, and so is the root of
  \<open>nan\<close>; the root of \<open>inf\<close> is \<open>inf\<close>.
\<close>

fun pow_half :: "tensor \<Rightarrow> tensor" where
  "pow_half (Finite t) =
     (if \<exists>h \<in> set (concat t). h < 0 then NotFinite else Finite (map (map sqrt) t))"
| "pow_half NotFinite = NotFinite"

section \<open>HeightMap\<close>

text \<open>
  The fields of \<^verbatim>\<open>HeightMap\<close>. The two parameters \<open>height_map_sqrt\<close> and
  \<open>zernike_coeffs\<close> are attributes that only one branch of the constructor sets:
  \<open>None\<close> is the attribute that was never assigned. An entry of \<open>wave_nos\<close> is
  \<open>None\<close> where \<^verbatim>\<open>2. * torch.pi / wave_lengths\<close> divides by zero (the entry is
  \<open>inf\<close>).
\<close>

record HeightMap =
  zernike_volume :: "real list list list option"
  initial_zernike_coefs :: "(nat \<rightharpoonup> real) option"
  wave_lengths :: "real list"
  refractive_idcs :: "real list"
  delta_N :: "real list"
  wave_nos :: "real option list"
  xx :: "real list list"
  yy :: "real list list"
  sensor_distance :: real
  height_map_sqrt :: "tensor option"
  zernike_coeffs :: "real list option"

text \<open>
  \<^verbatim>\<open>HeightMap.phase_to_height_map\<close> (lines 69-86) on a phase of real entries: the phase
  is reduced modulo \<open>2\<pi>\<close>, then divided by the wave number and by \<open>delta_n\<close> of the
  chosen wavelength. With \<open>delta_n = 0\<close> every entry is a quotient by zero. With a
  wavelength of zero the wave number is \<open>inf\<close>, and the quotient of a real phase by it
  is 0.
\<close>

definition phase_to_height_map :: "HeightMap \<Rightarrow> real list list \<Rightarrow> nat \<Rightarrow> error + real list list" where
  "phase_to_height_map self phi wave_length_idx =
     (if wave_length_idx < length (wave_lengths self) then
        let wave_length = wave_lengths self ! wave_length_idx in
        if wave_length_idx < length (delta_N self) then
          let delta_n = delta_N self ! wave_length_idx in
          if delta_n = 0 \<and> concat phi \<noteq> [] then Inl NonFinite
          else if wave_length = 0 then Inr (map (map (\<lambda>p. 0)) phi)
          else
            let k = 2 * pi / wave_length;
                phi = map (map (\<lambda>p. remainder p (2 * pi))) phi;
                height_map = map (map (\<lambda>p. p / k / delta_n)) phi
            in Inr height_map
        else Inl IndexError
      else Inl IndexError)"

text \<open>
  The same method on a tensor that the source goes on with: the two index lookups come
  first, and \<open>nan\<close> stays \<open>nan\<close> under \<^verbatim>\<open>%\<close> and under both divisions (\<open>inf\<close>
  becomes \<open>nan\<close> under \<^verbatim>\<open>%\<close>).
\<close>

definition phase_to_height_map_carried :: "HeightMap \<Rightarrow> tensor \<Rightarrow> nat \<Rightarrow> error + tensor" where
  "phase_to_height_map_carried self phi wave_length_idx =
     (case phi of
        Finite p \<Rightarrow> carry_on (phase_to_height_map self p wave_length_idx)
      | NotFinite \<Rightarrow>
          if wave_length_idx < length (wave_lengths self)
             \<and> wave_length_idx < length (delta_N self)
          then Inr NotFinite else Inl IndexError)"

text \<open>
  The Fresnel-lens phase that \<^verbatim>\<open>_fresnel_phase_init\<close> (lines 41-44) and
  \<^verbatim>\<open>build_baseline_profile\<close> (lines 234-237) both compute, by the same three
  statements, into their local variable \<^verbatim>\<open>fresnel_phase\<close>. With a wavelength or a
  sensor distance of zero every entry becomes \<open>inf\<close> or \<open>nan\<close> before \<^verbatim>\<open>%\<close>, and
  \<open>nan\<close> after it.
\<close>

definition fresnel_phase :: "real list \<Rightarrow> real list list \<Rightarrow> real list list \<Rightarrow> real \<Rightarrow> nat \<Rightarrow> error + real list list" where
  "fresnel_phase wls xs ys sd idx =
     (if idx < length wls then
        case broadcast2 (\<lambda>x y. x\<^sup>2 + y\<^sup>2) xs ys of
          Inl e \<Rightarrow> Inl e
        | Inr r2 \<Rightarrow>
            if (wls ! idx = 0 \<or> sd = 0) \<and> concat r2 \<noteq> [] then Inl NonFinite
            else
              let k = 2 * pi / (wls ! idx);
                  fresnel_phase = map (map (\<lambda>s. - k * (s / (2 * sd)))) r2
              in Inr (map (map (\<lambda>p. remainder p (pi * 2))) fresnel_phase)
      else Inl IndexError)"

text \<open>\<^verbatim>\<open>HeightMap._fresnel_phase_init\<close> (lines 33-46).\<close>

definition fresnel_phase_init :: "HeightMap \<Rightarrow> nat \<Rightarrow> error + tensor" where
  "fresnel_phase_init self idx =
     (case carry_on (fresnel_phase (wave_lengths self) (xx self) (yy self)
                       (sensor_distance self) idx) of
        Inl e \<Rightarrow> Inl e
      | Inr phase \<Rightarrow>
          (case phase_to_height_map_carried self phase idx of
             Inl e \<Rightarrow> Inl e
           | Inr height_map \<Rightarrow> Inr (pow_half height_map)))"

text \<open>
  The loop of the constructor over \<^verbatim>\<open>range(num_zernike_coeffs)\<close> (lines 29-31).
  \<^verbatim>\<open>initial_zernike_coefs.get\<close> on \<^verbatim>\<open>None\<close> (the default of \<^verbatim>\<open>DOEModelConfig\<close>)
  is an \<open>AttributeError\<close>.
\<close>

fun zernike_loop :: "(nat \<rightharpoonup> real) option \<Rightarrow> nat list \<Rightarrow> real list \<Rightarrow> error + real list" where
  "zernike_loop coefs [] acc = Inr acc"
| "zernike_loop coefs (k # ks) acc =
     (case coefs of
        None \<Rightarrow> Inl AttributeError
      | Some d \<Rightarrow>
          let v = (case d k of None \<Rightarrow> 0 | Some v \<Rightarrow> v)
          in zernike_loop coefs ks (acc @ [v]))"

text \<open>\<^verbatim>\<open>HeightMap.__init__\<close> (lines 6-31).\<close>

definition HeightMap_init ::
  "real list list list option \<Rightarrow> (nat \<rightharpoonup> real) option \<Rightarrow> nat \<times> nat \<times> nat \<times> nat \<Rightarrow>
   real list \<Rightarrow> real list \<Rightarrow> real list list \<Rightarrow> real list list \<Rightarrow> real \<Rightarrow> error + HeightMap" where
  "HeightMap_init zv coefs height_map_shape wls ris xs ys sd =
     (let self = \<lparr> zernike_volume = zv, initial_zernike_coefs = coefs,
                   wave_lengths = wls, refractive_idcs = ris,
                   delta_N = map (\<lambda>n. n - 1) ris,
                   wave_nos = map (\<lambda>w. if w = 0 then None else Some (2 * pi / w)) wls,
                   xx = xs, yy = ys, sensor_distance = sd,
                   height_map_sqrt = None, zernike_coeffs = None \<rparr>
      in case zv of
           None \<Rightarrow>
             (case fresnel_phase_init self 1 of
                Inl e \<Rightarrow> Inl e
              | Inr h \<Rightarrow> Inr (self\<lparr>height_map_sqrt := Some h\<rparr>))
         | Some vol \<Rightarrow>
             (case zernike_loop coefs [0 ..< length vol] [] of
                Inl e \<Rightarrow> Inl e
              | Inr cs \<Rightarrow> Inr (self\<lparr>zernike_coeffs := Some cs\<rparr>)))"

text \<open>
  The height field of the free-form branch, \<^verbatim>\<open>torch.square(self.height_map_sqrt)\<close>
  (line 57).
\<close>

definition derived_height :: "real list list \<Rightarrow> real list list" where
  "derived_height hms = map (map (\<lambda>x. x\<^sup>2)) hms"

text \<open>
  The phase of the Zernike branch (line 60): the planes \<^verbatim>\<open>coef * zernike_volume[k]\<close> are
  stacked (an empty stack is a \<open>RuntimeError\<close>) and summed over \<open>k\<close>.
\<close>

definition zernike_phi :: "real list \<Rightarrow> real list list list \<Rightarrow> error + real list list" where
  "zernike_phi coeffs vol =
     (if length vol < length coeffs then Inl IndexError
      else if coeffs = [] then Inl RuntimeError
      else
        let planes = map2 (\<lambda>coef plane. map (map (\<lambda>z. coef * z)) plane) coeffs vol;
            total = foldl (map2 (map2 (+))) (hd planes) (tl planes)
        in Inr (map (map (\<lambda>s. 2 * pi * s)) total))"

text \<open>
  \<^verbatim>\<open>HeightMap.get_phase_profile\<close> (lines 48-62). In the free-form branch the first
  statement assigns to \<^verbatim>\<open>height_map\<close>, the name of the argument. The square of a
  parameter that holds \<open>inf\<close> or \<open>nan\<close> holds it too, in every channel of the profile.
\<close>

definition get_phase_profile :: "HeightMap \<Rightarrow> tensor option \<Rightarrow> error + complex list list list" where
  "get_phase_profile self height_map =
     (case zernike_volume self of
        None \<Rightarrow>
          (case height_map_sqrt self of
             None \<Rightarrow> Inl AttributeError
           | Some hms \<Rightarrow>
               let height_map = (case hms of
                                   Finite p \<Rightarrow> Finite (derived_height p)
                                 | NotFinite \<Rightarrow> NotFinite) in
               case broadcast (\<lambda>k d. case k of None \<Rightarrow> Inl NonFinite | Some k \<Rightarrow> Inr (k * d))
                      (wave_nos self) (delta_N self) of
                 Inl e \<Rightarrow> Inl e
               | Inr kd \<Rightarrow>
                   (case height_map of
                      Finite h \<Rightarrow>
                        let phi = map (\<lambda>c. map (map (\<lambda>h. c * h)) h) kd
                        in Inr (map (map (map (\<lambda>p. exp (\<i> * complex_of_real p)))) phi)
                    | NotFinite \<Rightarrow> if kd = [] then Inr [] else Inl NonFinite))
      | Some vol \<Rightarrow>
          (case zernike_coeffs self of
             None \<Rightarrow> Inl AttributeError
           | Some coeffs \<Rightarrow>
               (case zernike_phi coeffs vol of
                  Inl e \<Rightarrow> Inl e
                | Inr phi \<Rightarrow> Inr [map (map (\<lambda>p. exp (\<i> * complex_of_real p))) phi])))"

section \<open>RGBCollimator\<close>

text \<open>
  \<^verbatim>\<open>RGBCollimator._get_circular_aperture\<close> (lines 172-176). \<^verbatim>\<open>xx.max()\<close> of a tensor
  without elements is a \<open>RuntimeError\<close>.
\<close>

definition get_circular_aperture :: "real list list \<Rightarrow> real list list \<Rightarrow> error + real list list" where
  "get_circular_aperture xs ys =
     (if concat xs = [] then Inl RuntimeError
      else
        let max_val = Max (set (concat xs)) in
        case broadcast2 (\<lambda>x y. sqrt (x\<^sup>2 + y\<^sup>2)) xs ys of
          Inl e \<Rightarrow> Inl e
        | Inr r \<Rightarrow> Inr (map (map (\<lambda>v. if v < max_val then 1 else 0)) r))"

text \<open>
  The fields of \<^verbatim>\<open>RGBCollimator\<close>; those that \<^verbatim>\<open>HeightMap\<close> has under the same name
  carry the prefix \<open>rgb\<close>.
\<close>

record RGBCollimator =
  rgb_zernike_volume :: "real list list list option"
  rgb_initial_zernike_coefs :: "(nat \<rightharpoonup> real) option"
  wave_res :: "nat \<times> nat"
  rgb_wave_lengths :: "real list"
  rgb_sensor_distance :: real
  sample_interval :: real
  patch_size :: nat
  rgb_refractive_idcs :: "real list"
  input_field :: "real list list list"
  rgb_xx :: "real list list"
  rgb_yy :: "real list list"
  aperture :: "real list list"
  height_map :: HeightMap
  propagator :: "complex list list list \<Rightarrow> complex list list list"

text \<open>
  \<^verbatim>\<open>RGBCollimator.__init__\<close> with \<^verbatim>\<open>_init_setup\<close>, \<^verbatim>\<open>_get_height_map\<close> and
  \<^verbatim>\<open>_get_propagator\<close> (lines 90-109, 137-170). \<^verbatim>\<open>get_coordinate\<close> and
  \<^verbatim>\<open>FresnelPropagator\<close> come from \<^verbatim>\<open>common.py\<close>, which is not part of the sources at
  hand: they are parameters.
\<close>

definition RGBCollimator_init ::
  "(nat \<Rightarrow> nat \<Rightarrow> real \<Rightarrow> real \<Rightarrow> real list list \<times> real list list) \<Rightarrow>
   (nat \<times> nat \<times> nat \<times> nat \<Rightarrow> real \<Rightarrow> real \<Rightarrow> real list \<Rightarrow>
      complex list list list \<Rightarrow> complex list list list) \<Rightarrow>
   real list list list option \<Rightarrow> (nat \<rightharpoonup> real) option \<Rightarrow> real \<Rightarrow> real list \<Rightarrow> real list \<Rightarrow>
   nat \<Rightarrow> real \<Rightarrow> nat \<times> nat \<Rightarrow> error + RGBCollimator" where
  "RGBCollimator_init get_coordinate FresnelPropagator zv coefs sd ris wls ps si wres =
     (let ones = replicate (length wls) (replicate (fst wres) (replicate (snd wres) 1));
          (xs, ys) = get_coordinate (fst wres) (snd wres) si si
      in case get_circular_aperture xs ys of
           Inl e \<Rightarrow> Inl e
         | Inr ap \<Rightarrow>
             (case HeightMap_init zv coefs (1, 3, fst wres, snd wres) wls ris xs ys sd of
                Inl e \<Rightarrow> Inl e
              | Inr hm \<Rightarrow>
                  Inr \<lparr> rgb_zernike_volume = zv, rgb_initial_zernike_coefs = coefs,
                        wave_res = wres, rgb_wave_lengths = wls, rgb_sensor_distance = sd,
                        sample_interval = si, patch_size = ps, rgb_refractive_idcs = ris,
                        input_field = ones, rgb_xx = xs, rgb_yy = ys, aperture = ap,
                        height_map = hm,
                        propagator = FresnelPropagator (1, 3, fst wres, snd wres) sd si wls \<rparr>))"

text \<open>\<^verbatim>\<open>psfs.sum()\<close>: the sum over every entry of the tensor.\<close>

definition tensor_sum :: "real list list list \<Rightarrow> real" where
  "tensor_sum t = sum_list (concat (concat t))"

text \<open>
  \<^verbatim>\<open>RGBCollimator.get_psf\<close> up to the downsampling (lines 121-127).
  \<^verbatim>\<open>area_downsampling\<close> is a function of \<^verbatim>\<open>common.py\<close> too, and a parameter here.
\<close>

definition psf_intensity ::
  "(real list list list \<Rightarrow> nat \<Rightarrow> real list list list) \<Rightarrow> RGBCollimator \<Rightarrow>
   complex list list list option \<Rightarrow> error + real list list list" where
  "psf_intensity area_downsampling self phase_profile =
     (case (case phase_profile of
              None \<Rightarrow> get_phase_profile (height_map self) None
            | Some p \<Rightarrow> Inr p) of
        Inl e \<Rightarrow> Inl e
      | Inr profile \<Rightarrow>
          (case broadcast3 (\<lambda>p f. p * complex_of_real f) profile (input_field self) of
             Inl e \<Rightarrow> Inl e
           | Inr field \<Rightarrow>
               (case broadcast3 (\<lambda>a f. complex_of_real a * f) [aperture self] field of
                  Inl e \<Rightarrow> Inl e
                | Inr field \<Rightarrow>
                    let field = propagator self field;
                        psfs = map (map (map (\<lambda>z. (cmod z)\<^sup>2))) field
                    in Inr (area_downsampling psfs (patch_size self)))))"

text \<open>
  \<^verbatim>\<open>RGBCollimator.get_psf\<close> (lines 111-130): the last statement divides every entry by
  the one scalar \<^verbatim>\<open>psfs.sum()\<close>; a sum of zero makes every quotient \<open>nan\<close> or \<open>inf\<close>.
\<close>

definition get_psf ::
  "(real list list list \<Rightarrow> nat \<Rightarrow> real list list list) \<Rightarrow> RGBCollimator \<Rightarrow>
   complex list list list option \<Rightarrow> error + real list list list" where
  "get_psf area_downsampling self phase_profile =
     (case psf_intensity area_downsampling self phase_profile of
        Inl e \<Rightarrow> Inl e
      | Inr psfs \<Rightarrow>
          if tensor_sum psfs = 0 then Inl NonFinite
          else Inr (map (map (map (\<lambda>p. p / tensor_sum psfs))) psfs))"

text \<open>
  \<^verbatim>\<open>build_baseline_profile\<close> (lines 221-245). The local variable \<^verbatim>\<open>height_map\<close> is
  bound in the first branch only (\<open>None\<close> is the unbound variable); reading it unbound
  in the call of line 244 is an \<open>UnboundLocalError\<close>. A height map that holds \<open>inf\<close> or
  \<open>nan\<close> is passed on as any other.
\<close>

definition build_baseline_profile :: "RGBCollimator \<Rightarrow> error + complex list list list" where
  "build_baseline_profile rgb_collim_model =
     (case (if rgb_zernike_volume rgb_collim_model = None then
              (case carry_on (fresnel_phase (rgb_wave_lengths rgb_collim_model)
                                (rgb_xx rgb_collim_model) (rgb_yy rgb_collim_model)
                                (rgb_sensor_distance rgb_collim_model) 1) of
                 Inl e \<Rightarrow> Inl e
               | Inr phase \<Rightarrow>
                   (case phase_to_height_map_carried (height_map rgb_collim_model) phase 1 of
                      Inl e \<Rightarrow> Inl e
                    | Inr h \<Rightarrow> Inr (Some h)))
            else Inr None) of
        Inl e \<Rightarrow> Inl e
      | Inr None \<Rightarrow> Inl UnboundLocalError
      | Inr (Some h) \<Rightarrow> get_phase_profile (height_map rgb_collim_model) (Some h))"

section \<open>The specification's wording\<close>

text \<open>Two coordinate arrays of one shape, as a meshgrid returns them.\<close>

definition same_shape :: "'a list list \<Rightarrow> 'b list list \<Rightarrow> bool" where
  "same_shape xs ys = list_all2 (\<lambda>r s. length r = length s) xs ys"

text \<open>
  The aperture mask as the specification words it: the radius of a sample is
  \<open>sqrt (x\<^sup>2 + y\<^sup>2)\<close>, and the mask is 1 where the radius is below the largest
  radius of the grid.
\<close>

definition max_grid_radius :: "real list list \<Rightarrow> real list list \<Rightarrow> real" where
  "max_grid_radius xs ys = Max (set (concat (map2 (map2 (\<lambda>x y. sqrt (x\<^sup>2 + y\<^sup>2))) xs ys)))"

definition spec_aperture :: "real list list \<Rightarrow> real list list \<Rightarrow> real list list" where
  "spec_aperture xs ys =
     map2 (map2 (\<lambda>x y. if sqrt (x\<^sup>2 + y\<^sup>2) < max_grid_radius xs ys then 1 else 0)) xs ys"


section \<open>Example systems\<close>

text \<open>
  Small optical systems on which the functions are evaluated: wavelengths 1, 2 and 4,
  refractive index 2 in every channel, the sensor at distance 1/2. Their grids have one
  sample at the origin, or three samples in a row at \<open>- dx\<close>, 0 and \<open>dx\<close>. The
  propagator hands the field on unchanged and the downsampling keeps the resolution.
\<close>

definition single_sample_grid :: "nat \<Rightarrow> nat \<Rightarrow> real \<Rightarrow> real \<Rightarrow> real list list \<times> real list list" where
  "single_sample_grid H W dx dy = ([[0]], [[0]])"

definition three_sample_grid :: "nat \<Rightarrow> nat \<Rightarrow> real \<Rightarrow> real \<Rightarrow> real list list \<times> real list list" where
  "three_sample_grid H W dx dy = ([[- dx, 0, dx]], [[0, 0, 0]])"

definition passthrough_propagator ::
  "nat \<times> nat \<times> nat \<times> nat \<Rightarrow> real \<Rightarrow> real \<Rightarrow> real list \<Rightarrow>
   complex list list list \<Rightarrow> complex list list list" where
  "passthrough_propagator input_shape sd si wls field = field"

definition no_downsampling :: "real list list list \<Rightarrow> nat \<Rightarrow> real list list list" where
  "no_downsampling psfs ps = psfs"

definition three_sample_height_map :: HeightMap where
  "three_sample_height_map =
     \<lparr> zernike_volume = None, initial_zernike_coefs = None,
       wave_lengths = [1, 2, 4], refractive_idcs = [2, 2, 2],
       delta_N = [1, 1, 1], wave_nos = [Some (2 * pi), Some pi, Some (pi / 2)],
       xx = [[- 1, 0, 1]], yy = [[0, 0, 0]], sensor_distance = 1 / 2,
       height_map_sqrt = Some (Finite [[1, 0, 1]]), zernike_coeffs = None \<rparr>"

definition three_sample_model :: RGBCollimator where
  "three_sample_model =
     \<lparr> rgb_zernike_volume = None, rgb_initial_zernike_coefs = None,
       wave_res = (1, 3), rgb_wave_lengths = [1, 2, 4], rgb_sensor_distance = 1 / 2,
       sample_interval = 1, patch_size = 3, rgb_refractive_idcs = [2, 2, 2],
       input_field = [[[1, 1, 1]], [[1, 1, 1]], [[1, 1, 1]]],
       rgb_xx = [[- 1, 0, 1]], rgb_yy = [[0, 0, 0]], aperture = [[0, 1, 0]],
       height_map = three_sample_height_map,
       propagator = passthrough_propagator (1, 3, 1, 3) (1 / 2) 1 [1, 2, 4] \<rparr>"

definition single_sample_height_map :: HeightMap where
  "single_sample_height_map =
     \<lparr> zernike_volume = None, initial_zernike_coefs = None,
       wave_lengths = [1, 2, 4], refractive_idcs = [2, 2, 2],
       delta_N = [1, 1, 1], wave_nos = [Some (2 * pi), Some pi, Some (pi / 2)],
       xx = [[0]], yy = [[0]], sensor_distance = 1 / 2,
       height_map_sqrt = Some (Finite [[0]]), zernike_coeffs = None \<rparr>"

definition single_sample_model :: RGBCollimator where
  "single_sample_model =
     \<lparr> rgb_zernike_volume = None, rgb_initial_zernike_coefs = None,
       wave_res = (1, 1), rgb_wave_lengths = [1, 2, 4], rgb_sensor_distance = 1 / 2,
       sample_interval = 1, patch_size = 1, rgb_refractive_idcs = [2, 2, 2],
       input_field = [[[1]], [[1]], [[1]]],
       rgb_xx = [[0]], rgb_yy = [[0]], aperture = [[0]],
       height_map = single_sample_height_map,
       propagator = passthrough_propagator (1, 3, 1, 1) (1 / 2) 1 [1, 2, 4] \<rparr>"

text \<open>
  The three-sample system after its parameter has been set to zero, a flat plate, as a
  step of the optimiser or \<^verbatim>\<open>load_state_dict\<close> sets it.
\<close>

definition flat_plate_model :: RGBCollimator where
  "flat_plate_model =
     three_sample_model
       \<lparr>height_map := three_sample_height_map\<lparr>height_map_sqrt := Some (Finite [[0, 0, 0]])\<rparr>\<rparr>"

text \<open>A system with one Zernike plane, whose coefficient is 1/2.\<close>

definition zernike_height_map :: HeightMap where
  "zernike_height_map =
     \<lparr> zernike_volume = Some [[[1, 1, 1]]], initial_zernike_coefs = Some [0 \<mapsto> 1 / 2],
       wave_lengths = [1, 2, 4], refractive_idcs = [2, 2, 2],
       delta_N = [1, 1, 1], wave_nos = [Some (2 * pi), Some pi, Some (pi / 2)],
       xx = [[- 1, 0, 1]], yy = [[0, 0, 0]], sensor_distance = 1 / 2,
       height_map_sqrt = None, zernike_coeffs = Some [1 / 2] \<rparr>"

definition zernike_model :: RGBCollimator where
  "zernike_model =
     \<lparr> rgb_zernike_volume = Some [[[1, 1, 1]]], rgb_initial_zernike_coefs = Some [0 \<mapsto> 1 / 2],
       wave_res = (1, 3), rgb_wave_lengths = [1, 2, 4], rgb_sensor_distance = 1 / 2,
       sample_interval = 1, patch_size = 3, rgb_refractive_idcs = [2, 2, 2],
       input_field = [[[1, 1, 1]], [[1, 1, 1]], [[1, 1, 1]]],
       rgb_xx = [[- 1, 0, 1]], rgb_yy = [[0, 0, 0]], aperture = [[0, 1, 0]],
       height_map = zernike_height_map,
       propagator = passthrough_propagator (1, 3, 1, 3) (1 / 2) 1 [1, 2, 4] \<rparr>"

section \<open>Helper lemmas\<close>

lemma remainder_shift: "remainder (p + 2 * pi * of_int n) (2 * pi) = remainder p (2 * pi)"
proof -
  have "(p + 2 * pi * of_int n) / (2 * pi) = p / (2 * pi) + of_int n"
    by (simp add: field_simps)
  then have "\<lfloor>(p + 2 * pi * of_int n) / (2 * pi)\<rfloor> = \<lfloor>p / (2 * pi)\<rfloor> + n"
    by simp
  then show ?thesis
    by (simp add: remainder_def algebra_simps)
qed


lemma rem_0: "remainder 0 b = 0"
  by (simp add: remainder_def)

lemma rem_neg_pi: "remainder (- pi) (pi * 2) = pi"
proof -
  have "\<lfloor>- pi / (pi * 2)\<rfloor> = \<lfloor>- (1 / 2) :: real\<rfloor>" by simp
  also have "\<dots> = - 1" by linarith
  finally show ?thesis by (simp add: remainder_def)
qed

lemma rem_pi: "remainder pi (2 * pi) = pi"
proof -
  have "\<lfloor>pi / (2 * pi)\<rfloor> = \<lfloor>(1 / 2) :: real\<rfloor>" by simp
  also have "\<dots> = 0" by linarith
  finally show ?thesis by (simp add: remainder_def)
qed

lemma exp_cis: "exp (\<i> * complex_of_real p) = cis p"
  by (simp add: cis_conv_exp)

text \<open>A phase and its reduction modulo \<open>2\<pi>\<close> give the same point of the unit circle.\<close>

lemma exp_remainder:
  "exp (\<i> * complex_of_real (remainder p (2 * pi))) = exp (\<i> * complex_of_real p)"
proof -
  define n where "n = \<lfloor>p / (2 * pi)\<rfloor>"
  have "cis (remainder p (2 * pi)) = cis (p + 2 * pi * of_int (- n))"
    by (simp add: remainder_def n_def)
  also have "\<dots> = cis p * cis (2 * pi * of_int (- n))"
    by (simp only: cis_mult)
  also have "cis (2 * pi * of_int (- n)) = 1"
    by (rule cis_multiple_2pi) simp
  finally show ?thesis by (simp add: cis_conv_exp)
qed

lemma collect_Inr: "collect (map (\<lambda>x. Inr (g x)) xs) = Inr (map g xs)"
  by (induction xs) simp_all

lemma broadcast_same_length:
  "length xs = length ys \<Longrightarrow> broadcast (\<lambda>x y. Inr (g x y)) xs ys = Inr (map2 g xs ys)"
proof -
  assume "length xs = length ys"
  then have "broadcast (\<lambda>x y. Inr (g x y)) xs ys
               = collect (map (\<lambda>p. Inr (case p of (x, y) \<Rightarrow> g x y)) (zip xs ys))"
    by (simp add: broadcast_def case_prod_unfold)
  then show ?thesis by (simp only: collect_Inr)
qed

lemma broadcast2_same_shape:
  assumes "same_shape xs ys"
  shows "broadcast2 g xs ys = Inr (map2 (map2 g) xs ys)"
proof -
  from assms have len: "length xs = length ys"
    by (simp add: same_shape_def list_all2_lengthD)
  have "map2 (broadcast (\<lambda>x y. Inr (g x y))) xs ys
          = map (\<lambda>p. Inr (case p of (r, s) \<Rightarrow> map2 g r s)) (zip xs ys)"
    using assms unfolding same_shape_def
    by (induction xs ys rule: list_all2_induct) (simp_all add: broadcast_same_length)
  then have "collect (map2 (broadcast (\<lambda>x y. Inr (g x y))) xs ys) = Inr (map2 (map2 g) xs ys)"
    by (simp only: collect_Inr)
  with len show ?thesis
    unfolding broadcast2_def by (subst broadcast_def) simp
qed


lemma sum_list_div: "sum_list (map (\<lambda>p. p / c) xs) = sum_list xs / (c::real)"
  by (induction xs) (simp_all add: add_divide_distrib)

lemma tensor_sum_div: "tensor_sum (map (map (map (\<lambda>p. p / c))) t) = tensor_sum t / c"
  by (simp add: tensor_sum_def map_concat [symmetric] sum_list_div)

lemma zernike_loop_some:
  "zernike_loop (Some d) ks acc = Inr (acc @ map (\<lambda>k. case d k of None \<Rightarrow> 0 | Some v \<Rightarrow> v) ks)"
  by (induction ks arbitrary: acc) (simp_all add: Let_def)

lemma wave_nos_times_delta_N:
  assumes "length ris = length wls" and "0 \<notin> set wls"
  shows "broadcast (\<lambda>k d. case k of None \<Rightarrow> Inl NonFinite | Some k \<Rightarrow> Inr (k * d))
           (map (\<lambda>w. if w = 0 then None else Some (2 * pi / w)) wls) (map (\<lambda>n. n - 1) ris)
         = Inr (map2 (\<lambda>w n. 2 * pi / w * (n - 1)) wls ris)"
proof -
  have "collect (map2 (\<lambda>k d. case k of None \<Rightarrow> Inl NonFinite | Some k \<Rightarrow> Inr (k * d))
           (map (\<lambda>w. if w = 0 then None else Some (2 * pi / w)) wls) (map (\<lambda>n. n - (1::real)) ris))
         = Inr (map2 (\<lambda>w n. 2 * pi / w * (n - 1)) wls ris)"
    using assms(1) [symmetric] assms(2)
    by (induction wls ris rule: list_induct2) simp_all
  with assms(1) show ?thesis by (simp add: broadcast_def)
qed

text \<open>The free-form profile in closed form; the argument does not occur in it.\<close>

lemma get_phase_profile_free_form:
  assumes "zernike_volume hm = None" and "height_map_sqrt hm = Some (Finite hms)"
    and "wave_nos hm = map (\<lambda>w. if w = 0 then None else Some (2 * pi / w)) wls"
    and "delta_N hm = map (\<lambda>n. n - 1) ris"
    and "length ris = length wls" and "0 \<notin> set wls"
  shows "get_phase_profile hm arg =
           Inr (map (\<lambda>c. map (map (\<lambda>h. exp (\<i> * complex_of_real (c * h)))) (derived_height hms))
                  (map2 (\<lambda>w n. 2 * pi / w * (n - 1)) wls ris))"
  using assms
  by (simp add: get_phase_profile_def wave_nos_times_delta_N Let_def comp_def)

lemma get_phase_profile_argument_unused:
  "zernike_volume hm = None \<Longrightarrow> get_phase_profile hm arg = get_phase_profile hm None"
  by (simp add: get_phase_profile_def)

text \<open>
  The round trip itself: the height map that \<^verbatim>\<open>phase_to_height_map\<close> gives for a phase
  and the green wavelength, delayed by the green wave number and the green \<open>delta_N\<close>,
  is that phase again on the unit circle.
\<close>

lemma green_round_trip:
  assumes conv: "phase_to_height_map self phase 1 = Inr h" and w: "wave_lengths self ! 1 \<noteq> 0"
  shows "map (map (\<lambda>v. exp (\<i> * complex_of_real
                              (2 * pi / wave_lengths self ! 1 * (delta_N self ! 1) * v)))) h
           = map (map (\<lambda>p. exp (\<i> * complex_of_real p))) phase"
proof -
  define k where "k = 2 * pi / wave_lengths self ! 1"
  define dn where "dn = delta_N self ! 1"
  from conv w have h: "h = map (map (\<lambda>p. remainder p (2 * pi) / k / dn)) phase"
    and ne: "dn = 0 \<longrightarrow> concat phase = []"
    by (auto simp: phase_to_height_map_def Let_def comp_def k_def dn_def split: if_splits)
  have k0: "k \<noteq> 0" using w by (simp add: k_def)
  have "exp (\<i> * complex_of_real (k * dn * (remainder p (2 * pi) / k / dn)))
          = exp (\<i> * complex_of_real p)" if "r \<in> set phase" and "p \<in> set r" for r p
  proof -
    from that have "r \<noteq> []" by auto
    with that have "concat phase \<noteq> []" by auto
    with ne have "dn \<noteq> 0" by blast
    with k0 have "k * dn * (remainder p (2 * pi) / k / dn) = remainder p (2 * pi)"
      by simp
    then show ?thesis by (simp only: exp_remainder)
  qed
  then have "map (map (\<lambda>p. exp (\<i> * complex_of_real (k * dn * (remainder p (2 * pi) / k / dn)))))
               phase
             = map (map (\<lambda>p. exp (\<i> * complex_of_real p))) phase"
    by (intro map_cong refl) blast
  then show ?thesis
    unfolding h k_def dn_def by (simp only: map_map comp_def)
qed

text \<open>
  A grid of a single sample closes the aperture, wherever the sample lies: its radius
  is never below its own \<open>x\<close> coordinate.
\<close>

lemma single_sample_aperture_closed: "get_circular_aperture [[x]] [[y]] = Inr [[0]]"
proof -
  have "\<bar>x\<bar> \<le> sqrt (x\<^sup>2 + y\<^sup>2)"
    by (rule real_le_rsqrt) (simp add: power2_abs)
  then have "\<not> sqrt (x\<^sup>2 + y\<^sup>2) < x" by linarith
  then show ?thesis
    by (simp add: get_circular_aperture_def broadcast2_def broadcast_def)
qed

subsection \<open>The example systems are what the constructors build\<close>

lemma three_sample_height_map_init:
  "HeightMap_init None None shape [1, 2, 4] [2, 2, 2] [[- 1, 0, 1]] [[0, 0, 0]] (1 / 2)
     = Inr three_sample_height_map"
  by (simp add: HeightMap_init_def fresnel_phase_init_def fresnel_phase_def broadcast2_def
        broadcast_def phase_to_height_map_def phase_to_height_map_carried_def carry_on_def
        Let_def rem_0 rem_neg_pi rem_pi three_sample_height_map_def)

lemma three_sample_model_init:
  "RGBCollimator_init three_sample_grid passthrough_propagator None None (1 / 2) [2, 2, 2] [1, 2, 4]
     3 1 (1, 3) = Inr three_sample_model"
  by (simp add: RGBCollimator_init_def three_sample_grid_def three_sample_height_map_init
        get_circular_aperture_def broadcast2_def broadcast_def three_sample_model_def
        eval_nat_numeral)

lemma single_sample_height_map_init:
  "HeightMap_init None None shape [1, 2, 4] [2, 2, 2] [[0]] [[0]] (1 / 2)
     = Inr single_sample_height_map"
  by (simp add: HeightMap_init_def fresnel_phase_init_def fresnel_phase_def broadcast2_def
        broadcast_def phase_to_height_map_def phase_to_height_map_carried_def carry_on_def
        Let_def rem_0 single_sample_height_map_def)

lemma single_sample_model_init:
  "RGBCollimator_init single_sample_grid passthrough_propagator None None (1 / 2) [2, 2, 2] [1, 2, 4]
     1 1 (1, 1) = Inr single_sample_model"
  by (simp add: RGBCollimator_init_def single_sample_grid_def single_sample_height_map_init
        single_sample_aperture_closed single_sample_model_def)

lemma zernike_height_map_init:
  "HeightMap_init (Some [[[1, 1, 1]]]) (Some [0 \<mapsto> 1 / 2]) shape [1, 2, 4] [2, 2, 2]
     [[- 1, 0, 1]] [[0, 0, 0]] (1 / 2) = Inr zernike_height_map"
  by (simp add: HeightMap_init_def zernike_loop_some zernike_height_map_def)

lemma zernike_model_init:
  "RGBCollimator_init three_sample_grid passthrough_propagator (Some [[[1, 1, 1]]])
     (Some [0 \<mapsto> 1 / 2]) (1 / 2) [2, 2, 2] [1, 2, 4] 3 1 (1, 3) = Inr zernike_model"
  by (simp add: RGBCollimator_init_def three_sample_grid_def zernike_height_map_init
        get_circular_aperture_def broadcast2_def broadcast_def zernike_model_def
        eval_nat_numeral)

lemma three_sample_profile:
  "get_phase_profile three_sample_height_map arg
     = Inr [[[1, 1, 1]], [[- 1, 1, - 1]], [[\<i>, 1, \<i>]]]"
  by (simp add: get_phase_profile_def three_sample_height_map_def derived_height_def
        broadcast_def exp_cis)

lemma three_sample_phase:
  "fresnel_phase [1, 2, 4] [[- 1, 0, 1]] [[0, 0, 0]] (1 / 2) 1 = Inr [[pi, 0, pi]]"
  by (simp add: fresnel_phase_def broadcast2_def broadcast_def Let_def rem_0 rem_neg_pi)

lemma three_sample_intensity:
  "psf_intensity no_downsampling three_sample_model None
     = Inr [[[0, 1, 0]], [[0, 1, 0]], [[0, 1, 0]]]"
  by (simp add: psf_intensity_def three_sample_model_def three_sample_profile broadcast3_def
        broadcast_def passthrough_propagator_def no_downsampling_def)

lemma single_sample_intensity:
  "psf_intensity no_downsampling single_sample_model None = Inr [[[0]], [[0]], [[0]]]"
  by (simp add: psf_intensity_def single_sample_model_def get_phase_profile_def
        single_sample_height_map_def derived_height_def broadcast3_def broadcast_def
        passthrough_propagator_def no_downsampling_def)

subsection \<open>Tensors that hold \<open>nan\<close> are carried on\<close>

text \<open>
  A refractive index below 1 makes the heights negative and their roots \<open>nan\<close>; a
  sensor distance of zero makes the phase \<open>nan\<close>. In both cases the constructor stores
  the parameter and returns.
\<close>

lemma negative_height_constructs:
  "\<exists>hm. HeightMap_init None None shape [1, 2, 4] [2, 1 / 2, 2] [[- 1, 0, 1]] [[0, 0, 0]] (1 / 2)
           = Inr hm
        \<and> height_map_sqrt hm = Some NotFinite"
  by (simp add: HeightMap_init_def fresnel_phase_init_def fresnel_phase_def broadcast2_def
        broadcast_def phase_to_height_map_def phase_to_height_map_carried_def carry_on_def
        Let_def rem_0 rem_neg_pi rem_pi)

lemma zero_distance_constructs:
  "\<exists>hm. HeightMap_init None None shape [1, 2, 4] [2, 2, 2] [[- 1, 0, 1]] [[0, 0, 0]] 0 = Inr hm
        \<and> height_map_sqrt hm = Some NotFinite"
  by (simp add: HeightMap_init_def fresnel_phase_init_def fresnel_phase_def broadcast2_def
        broadcast_def phase_to_height_map_carried_def carry_on_def Let_def)

text \<open>
  \<^verbatim>\<open>build_baseline_profile\<close> with a sensor distance of zero computes a height map of
  \<open>nan\<close> and passes it on; the profile returned is that of the parameter.
\<close>

lemma baseline_profile_zero_distance:
  "build_baseline_profile (flat_plate_model\<lparr>rgb_sensor_distance := 0\<rparr>)
     = Inr [[[1, 1, 1]], [[1, 1, 1]], [[1, 1, 1]]]"
  by (simp add: build_baseline_profile_def flat_plate_model_def three_sample_model_def
        three_sample_height_map_def fresnel_phase_def broadcast2_def broadcast_def
        carry_on_def phase_to_height_map_carried_def get_phase_profile_def derived_height_def
        exp_cis)

section \<open>The claims\<close>

text \<open>
  C1. The claim: in free-form mode \<^verbatim>\<open>get_phase_profile(h)\<close> is computed from the supplied
  height map \<open>h\<close>. The code assigns \<^verbatim>\<open>torch.square(self.height_map_sqrt)\<close> to
  \<^verbatim>\<open>height_map\<close> before it reads it, so the argument is lost. On the three-sample system
  as constructed, the call with the height map of zeros returns the profile of the
  stored parameter, \<open>[[1, 1, 1], [-1, 1, -1], [\<i>, 1, \<i>]]\<close> by channel, where the claim
  gives \<open>exp 0 = 1\<close> at every entry.
\<close>

theorem external_height_map_ignored:
  "get_phase_profile three_sample_height_map (Some (Finite [[0, 0, 0]]))
     = Inr [[[1, 1, 1]], [[- 1, 1, - 1]], [[\<i>, 1, \<i>]]]"
  by (simp add: get_phase_profile_def three_sample_height_map_def derived_height_def
        broadcast_def exp_cis)

text \<open>
  C2, as amended. Whenever the downsampled intensities have a sum other than zero,
  \<^verbatim>\<open>get_psf\<close> returns them divided, every entry of every channel, by that one sum, and
  the returned tensor sums to 1.
\<close>

theorem get_psf_normalised:
  assumes "psf_intensity area_downsampling self phase_profile = Inr psfs"
    and "tensor_sum psfs \<noteq> 0"
  shows "get_psf area_downsampling self phase_profile
           = Inr (map (map (map (\<lambda>p. p / tensor_sum psfs))) psfs)
         \<and> tensor_sum (map (map (map (\<lambda>p. p / tensor_sum psfs))) psfs) = 1"
  using assms by (simp add: get_psf_def tensor_sum_div)

text \<open>
  On the three-sample system the intensity is 1 at the centre of each channel: every
  channel gets 1/3, the three channels together sum to 1.
\<close>

theorem get_psf_normalised_witness:
  "get_psf no_downsampling three_sample_model None
     = Inr [[[0, 1 / 3, 0]], [[0, 1 / 3, 0]], [[0, 1 / 3, 0]]]
   \<and> tensor_sum [[[0, 1 / 3, 0]], [[0, 1 / 3, 0]], [[0, 1 / 3, 0]]] = 1"
  using get_psf_normalised [OF three_sample_intensity]
  by (simp add: tensor_sum_def)

text \<open>
  C2 as stated fails on the system of a single sample: its aperture is closed, no
  light reaches the sensor, and the division by the sum is a division of zero by zero.
\<close>

theorem zero_intensity_psf_counterexample:
  "RGBCollimator_init single_sample_grid passthrough_propagator None None (1 / 2) [2, 2, 2] [1, 2, 4]
     1 1 (1, 1) = Inr single_sample_model
   \<and> get_psf no_downsampling single_sample_model None = Inl NonFinite"
  using single_sample_model_init single_sample_intensity
  by (simp add: get_psf_def tensor_sum_def)

text \<open>
  C3. The claim: the ideal Fresnel phase of the green wavelength, converted by
  \<^verbatim>\<open>phase_to_height_map\<close> and passed through \<^verbatim>\<open>get_phase_profile\<close> as
  \<^verbatim>\<open>build_baseline_profile\<close> does, comes back as that phase modulo \<open>2\<pi>\<close>. The code
  computes the height map and passes it, but \<^verbatim>\<open>get_phase_profile\<close> answers from the
  stored parameter. On the three-sample system with a flat plate the ideal phase is
  \<open>[\<pi>, 0, \<pi>]\<close>, and \<open>exp (\<i> \<pi>)\<close> is not 1, but the returned profile is 1 at every
  sample of every channel, the green one too.
\<close>

theorem baseline_profile_of_flat_plate:
  "fresnel_phase [1, 2, 4] [[- 1, 0, 1]] [[0, 0, 0]] (1 / 2) 1 = Inr [[pi, 0, pi]]
   \<and> build_baseline_profile flat_plate_model
     = Inr [[[1, 1, 1]], [[1, 1, 1]], [[1, 1, 1]]]
   \<and> exp (\<i> * complex_of_real pi) \<noteq> 1"
proof -
  have "build_baseline_profile flat_plate_model = Inr [[[1, 1, 1]], [[1, 1, 1]], [[1, 1, 1]]]"
    unfolding build_baseline_profile_def
    using three_sample_phase rem_0 rem_pi
    by (simp add: flat_plate_model_def three_sample_model_def three_sample_height_map_def
          carry_on_def phase_to_height_map_carried_def phase_to_height_map_def
          get_phase_profile_def derived_height_def broadcast_def exp_cis)
  with three_sample_phase show ?thesis
    by (simp add: exp_cis)
qed

text \<open>
  C4. \<^verbatim>\<open>phase_to_height_map\<close> does not change when whole cycles are added to the phase:
  for every phase tensor, every integer \<open>n\<close> and every wavelength index (a valid index
  gives the same height map on both sides, an invalid one the same \<open>IndexError\<close>),
  adding \<open>2\<pi> n\<close> to every entry leaves the result as it was.
\<close>

theorem phase_to_height_map_wrap:
  "phase_to_height_map self (map (map (\<lambda>p. p + 2 * pi * of_int n)) phi) idx
     = phase_to_height_map self phi idx"
  by (auto simp: phase_to_height_map_def Let_def remainder_shift comp_def)

theorem phase_to_height_map_wrap_witness:
  "phase_to_height_map three_sample_height_map [[1 + 2 * pi * of_int 3]] 1
     = phase_to_height_map three_sample_height_map [[1]] 1"
  using phase_to_height_map_wrap [of three_sample_height_map 3 "[[1]]" 1] by simp





text \<open>
  C7, as amended. For coordinate arrays of one shape with at least one sample, the
  aperture mask has the shape of the grid, and its entry is 1 where the radius
  \<open>sqrt (x\<^sup>2 + y\<^sup>2)\<close> is strictly below the largest \<open>x\<close> coordinate of the grid
  (\<^verbatim>\<open>xx.max()\<close>), and 0 at every other sample.
\<close>

theorem circular_aperture_mask:
  assumes "same_shape xs ys" and "concat xs \<noteq> []"
  shows "get_circular_aperture xs ys =
           Inr (map2 (map2 (\<lambda>x y. if sqrt (x\<^sup>2 + y\<^sup>2) < Max (set (concat xs)) then 1 else 0))
                  xs ys)"
  using assms
  by (simp add: get_circular_aperture_def broadcast2_same_shape Let_def case_prod_unfold comp_def)

theorem circular_aperture_mask_witness:
  "get_circular_aperture [[- 1, 0, 1]] [[0, 0, 0]] = Inr [[0, 1, 0]]"
  using circular_aperture_mask [of "[[- 1, 0, 1]]" "[[0, 0, 0]]"]
  by (simp add: same_shape_def)

text \<open>
  C7 as stated fails on the centred grid of three by three samples. The largest radius
  is \<open>sqrt 2\<close>, at the corners, so that the claim opens the four samples at radius 1;
  the code compares with the largest \<open>x\<close>, which is 1, and opens the centre only.
\<close>

theorem aperture_max_radius_counterexample:
  "get_circular_aperture [[- 1, 0, 1], [- 1, 0, 1], [- 1, 0, 1]]
       [[- 1, - 1, - 1], [0, 0, 0], [1, 1, 1]]
     = Inr [[0, 0, 0], [0, 1, 0], [0, 0, 0]]
   \<and> spec_aperture [[- 1, 0, 1], [- 1, 0, 1], [- 1, 0, 1]]
       [[- 1, - 1, - 1], [0, 0, 0], [1, 1, 1]]
     = [[0, 1, 0], [1, 1, 1], [0, 1, 0]]"
  by (simp add: get_circular_aperture_def broadcast2_def broadcast_def spec_aperture_def
        max_grid_radius_def)

text \<open>
  C9. With a Zernike basis and a mapping of initial coefficients, the constructor
  succeeds and creates as many coefficients as the basis has planes; a coefficient
  whose index the mapping does not hold is 0.
\<close>

theorem zernike_init_coeffs:
  "\<exists>hm cs. HeightMap_init (Some vol) (Some d) shape wls ris xs ys sd = Inr hm
     \<and> zernike_coeffs hm = Some cs \<and> length cs = length vol
     \<and> (\<forall>k < length vol. d k = None \<longrightarrow> cs ! k = 0)"
  by (simp add: HeightMap_init_def zernike_loop_some)

theorem zernike_init_coeffs_witness:
  "\<exists>hm cs. HeightMap_init (Some [[[1, 1, 1]], [[0, 1, 0]]]) (Some [1 \<mapsto> 1 / 2]) (1, 3, 1, 3)
              [1, 2, 4] [2, 2, 2] [[- 1, 0, 1]] [[0, 0, 0]] (1 / 2) = Inr hm
     \<and> zernike_coeffs hm = Some cs \<and> length cs = 2 \<and> cs ! 0 = 0"
  using zernike_init_coeffs [of "[[[1, 1, 1]], [[0, 1, 0]]]" "[1 \<mapsto> 1 / 2]" "(1, 3, 1, 3)"
          "[1, 2, 4]" "[2, 2, 2]" "[[- 1, 0, 1]]" "[[0, 0, 0]]" "1 / 2"]
  by auto

text \<open>
  C10. \<^verbatim>\<open>build_baseline_profile\<close> on a collimator with a Zernike basis raises: the
  branch of the basis binds no \<^verbatim>\<open>height_map\<close>, and the call that follows reads it.
\<close>

theorem build_baseline_profile_zernike:
  "rgb_zernike_volume m \<noteq> None \<Longrightarrow> build_baseline_profile m = Inl UnboundLocalError"
  by (auto simp: build_baseline_profile_def)

theorem build_baseline_profile_zernike_witness:
  "rgb_zernike_volume zernike_model \<noteq> None
   \<and> build_baseline_profile zernike_model = Inl UnboundLocalError"
  using build_baseline_profile_zernike [of zernike_model]
  by (simp add: zernike_model_def)

end
